theory Spec2Isabelle
  imports Main "HOL-Library.Signed_Division" "HOL-Library.Word" "HOL-Library.Sublist"
begin

section \<open>Machine integers of the scanner\<close>

text \<open>
  The scanner of \<^verbatim>\<open>src/scanner/yahoo_finance.cpp\<close> computes with \<^verbatim>\<open>int64_t\<close> epochs and
  one \<^verbatim>\<open>int\<close> (32 bit) sample count. Both are modelled as mathematical integers with the
  two's complement wrap-around written out after every operation: \<open>int64\<close> for the result
  of an \<^verbatim>\<open>int64_t\<close> operation, \<open>int32\<close> for a value stored in an \<^verbatim>\<open>int\<close>. Division is
  C++'s, truncating towards zero (\<open>sdiv\<close>), and a zero divisor is a failure of its own.
\<close>

definition int64 :: "int \<Rightarrow> int" where
  "int64 x = (x + 2 ^ 63) mod 2 ^ 64 - 2 ^ 63"

definition int32 :: "int \<Rightarrow> int" where
  "int32 x = (x + 2 ^ 31) mod 2 ^ 32 - 2 ^ 31"

definition div64 :: "int \<Rightarrow> int \<Rightarrow> int option" where
  "div64 a b = (if b = 0 then None else Some (int64 (a sdiv b)))"

text \<open>\<^verbatim>\<open>std::to_string\<close> on an integer: decimal digits, a leading minus sign when negative.\<close>

fun nat_digits :: "nat \<Rightarrow> string" where
  "nat_digits n =
     (if n < 10 then [''0123456789'' ! n]
      else nat_digits (n div 10) @ [''0123456789'' ! (n mod 10)])"

declare nat_digits.simps [simp del]

definition to_string :: "int \<Rightarrow> string" where
  "to_string i = (if i < 0 then CHR ''-'' # nat_digits (nat (- i)) else nat_digits (nat i))"

section \<open>Data model\<close>

text \<open>
  The failures of the scanner: DuckDB's \<^verbatim>\<open>InvalidInputException\<close> with its message, the
  exception of a failed cast of an argument to a date, a division by zero in the
  constructor, the dereference of a null plan in \<^verbatim>\<open>Bind\<close>, and whatever the execution of
  a plan by the CSV reader fails with.
\<close>

datatype error =
    InvalidInputException string
  | ConversionException string
  | DivisionByZero
  | NullPointerDereference
  | ExecutionError string

text \<open>The logical types of DuckDB that the scanner names or may be handed as arguments.\<close>

datatype LogicalType = VARCHAR | DATE | DOUBLE | HUGEINT | BIGINT | INTEGER | TIMESTAMP | BOOLEAN

datatype Value = BoolValue bool | StringValue string

text \<open>
  A \<^verbatim>\<open>ReadCSVRelation\<close> as \<^verbatim>\<open>GeneratePlan\<close> builds it: the file (here a URL), the column
  definitions in order, and the named parameters in the order they were added.
\<close>

record ReadCSVRelation =
  url :: string
  columns :: "(string \<times> LogicalType) list"
  named_parameters :: "(string \<times> Value) list"

text \<open>
  \<^verbatim>\<open>struct YahooFunctionData\<close>. The connection \<^verbatim>\<open>conn\<close> is a handle into the host engine and
  is left out; \<^verbatim>\<open>plan\<close> is the shared pointer, \<open>None\<close> when null.
\<close>

record YahooFunctionData =
  plan :: "ReadCSVRelation option"
  symbol :: string
  from_epoch :: int
  cur_to_epoch :: int
  to_epoch :: int
  interval :: string
  increment_epoch :: int

section \<open>IntervalInEpoch and ValidInterval\<close>

text \<open>
  Modelled from the spec: \<^verbatim>\<open>duckdb::Interval::SECS_PER_DAY\<close> is a constant of DuckDB, not of
  this repository; the specification gives the day as 86400 seconds.
\<close>

definition SECS_PER_DAY :: int where
  "SECS_PER_DAY = 86400"

definition IntervalInEpoch :: "string \<Rightarrow> int" where
  "IntervalInEpoch interval_p =
     (if interval_p = ''1d'' then SECS_PER_DAY
      else if interval_p = ''5d'' then int64 (5 * SECS_PER_DAY)
      else if interval_p = ''1wk'' then int64 (7 * SECS_PER_DAY)
      else if interval_p = ''1mo'' then int64 (30 * SECS_PER_DAY)
      else if interval_p = ''3mo'' then int64 (90 * SECS_PER_DAY)
      else 0)"

definition valid_interval :: "string list" where
  "valid_interval = [''1d'', ''5d'', ''1wk'', ''1mo'', ''3mo'']"

definition accepted_intervals :: string where
  "accepted_intervals =
     ''1d: 1 day interval'' @ [CHR 0x0A] @ ''5d: 5 day interval'' @ [CHR 0x0A] @
     ''1wk: 1 week interval'' @ [CHR 0x0A] @ ''1mo: 1 month interval'' @ [CHR 0x0A] @
     ''3mo: 3 month interval'' @ [CHR 0x0A]"

definition interval_message :: string where
  "interval_message =
     ''Interval is not valid, you should use one of the following valid intervals: '' @
     [CHR 0x0A] @ accepted_intervals"

definition ValidInterval :: "string \<Rightarrow> error + unit" where
  "ValidInterval interval_p =
     (if interval_p \<notin> set valid_interval
      then Inl (InvalidInputException interval_message)
      else Inr ())"

section \<open>The constructor of YahooFunctionData\<close>

text \<open>
  The constructor stores its arguments and computes \<^verbatim>\<open>increment_epoch\<close> and \<^verbatim>\<open>cur_to_epoch\<close>.
  \<^verbatim>\<open>expected_tuples\<close> is declared \<^verbatim>\<open>int\<close>, so the 64-bit quotient is narrowed to 32 bits;
  \<^verbatim>\<open>expected_tuples / 60 + 1\<close> is computed in \<^verbatim>\<open>int\<close> and widened for the second division.
  The plan is null until \<^verbatim>\<open>Bind\<close> assigns it.
\<close>

definition YahooFunctionData_new ::
  "string \<Rightarrow> int \<Rightarrow> int \<Rightarrow> string \<Rightarrow> error + YahooFunctionData" where
  "YahooFunctionData_new symbol_p from_epoch_p to_epoch_p interval_p =
     (let interval_epoch = IntervalInEpoch interval_p in
      case div64 (int64 (to_epoch_p - from_epoch_p)) interval_epoch of
        None \<Rightarrow> Inl DivisionByZero
      | Some samples \<Rightarrow>
          let expected_tuples = int32 (int64 (samples + 1)) in
          case (if expected_tuples > 60
                then div64 (int64 (to_epoch_p - from_epoch_p))
                           (int32 (int32 (expected_tuples sdiv 60) + 1))
                else Some (int64 (to_epoch_p - from_epoch_p))) of
            None \<Rightarrow> Inl DivisionByZero
          | Some increment \<Rightarrow>
              Inr \<lparr> plan = None,
                    symbol = symbol_p,
                    from_epoch = from_epoch_p,
                    cur_to_epoch =
                      (if int64 (from_epoch_p + increment) < to_epoch_p
                       then int64 (from_epoch_p + increment)
                       else to_epoch_p),
                    to_epoch = to_epoch_p,
                    interval = interval_p,
                    increment_epoch = increment \<rparr>)"

section \<open>GeneratePlan\<close>

definition RowSchema :: "(string \<times> LogicalType) list" where
  "RowSchema =
     [(''Date'', DATE), (''Open'', DOUBLE), (''High'', DOUBLE), (''Low'', DOUBLE),
      (''Close'', DOUBLE), (''Adj Close'', DOUBLE), (''Volume'', HUGEINT)]"

text \<open>
  \<^verbatim>\<open>GeneratePlan\<close> mutates the bind data through its reference and returns the plan pointer:
  the model returns the pointer (\<open>None\<close> for \<^verbatim>\<open>nullptr\<close>) together with the bind data
  after the call. It does not store the plan; its callers do.
\<close>

definition GeneratePlan ::
  "YahooFunctionData \<Rightarrow> ReadCSVRelation option \<times> YahooFunctionData" where
  "GeneratePlan bind_data =
     (if cur_to_epoch bind_data > to_epoch bind_data then (None, bind_data)
      else
        let from = to_string (from_epoch bind_data);
            to = to_string (cur_to_epoch bind_data);
            bind_data' = bind_data
              \<lparr> from_epoch := int64 (from_epoch bind_data + increment_epoch bind_data),
                cur_to_epoch := int64 (cur_to_epoch bind_data + increment_epoch bind_data) \<rparr>;
            url_p = ''https://query1.finance.yahoo.com/v7/finance/download/'' @
                    symbol bind_data' @ ''?period1='' @ from @ ''&period2='' @ to @
                    ''&interval='' @ interval bind_data' @ ''&events=history''
        in (Some \<lparr> url = url_p,
                   columns = RowSchema,
                   named_parameters =
                     [(''HEADER'', BoolValue True), (''NULLSTR'', StringValue ''null'')] \<rparr>,
            bind_data'))"

section \<open>Bind and Scan\<close>

text \<open>
  The arguments of the table function as \<^verbatim>\<open>Bind\<close> reads them: the symbol, the logical types
  of the two period arguments, what DuckDB's cast \<^verbatim>\<open>GetValue<date_t>\<close> gives for each of
  them, and the interval. The cast is DuckDB's: it gives a date (a \<^verbatim>\<open>date_t\<close> holds the
  days since 1970-01-01 in an \<^verbatim>\<open>int32_t\<close>, read with \<open>sint\<close>) or throws, as for a varchar
  that is not a date; its outcome is part of the input, \<open>Inl\<close> the exception thrown.
\<close>

record TableFunctionBindInput =
  symbol_input :: string
  from_type :: LogicalType
  from_date :: "error + 32 word"
  to_type :: LogicalType
  to_date :: "error + 32 word"
  interval_input :: string

text \<open>
  Modelled from the spec: \<^verbatim>\<open>duckdb::Date::Epoch\<close> is DuckDB's, not this repository's; an
  epoch is the seconds since the Unix epoch, so a date of \<open>d\<close> days is \<open>d\<close> times the
  seconds of a day, as an \<^verbatim>\<open>int64_t\<close>.
\<close>

definition Epoch :: "32 word \<Rightarrow> int" where
  "Epoch date = int64 (sint date * SECS_PER_DAY)"

text \<open>
  \<^verbatim>\<open>Bind\<close> returns the bind data and appends the plan's column types and names to the two
  output vectors. Every \<^verbatim>\<open>throw\<close> is an \<open>Inl\<close>: the two checks of the types, the casts of
  the two periods to dates, which come before the interval is looked at, the interval
  and the range; so is the dereference of the plan, were \<^verbatim>\<open>GeneratePlan\<close> to return null.
\<close>

definition Bind ::
  "TableFunctionBindInput \<Rightarrow> LogicalType list \<Rightarrow> string list \<Rightarrow>
   error + (YahooFunctionData \<times> LogicalType list \<times> string list)" where
  "Bind input return_types names =
     (if from_type input \<noteq> VARCHAR \<and> from_type input \<noteq> DATE
      then Inl (InvalidInputException ''Start Period must be a Date or a Date-VARCHAR '')
      else if to_type input \<noteq> VARCHAR \<and> to_type input \<noteq> DATE
      then Inl (InvalidInputException ''Start Period must be a Date or a Date-VARCHAR '')
      else
        case from_date input of
          Inl e \<Rightarrow> Inl e
        | Inr from_date' \<Rightarrow>
        case to_date input of
          Inl e \<Rightarrow> Inl e
        | Inr to_date' \<Rightarrow>
        let from = Epoch from_date';
            to = Epoch to_date'
        in case ValidInterval (interval_input input) of
             Inl e \<Rightarrow> Inl e
           | Inr _ \<Rightarrow>
               if sint to_date' \<le> sint from_date'
               then Inl (InvalidInputException
                           ''The End period must be higher than the start period'')
               else
                 (case YahooFunctionData_new (symbol_input input) from to
                         (interval_input input) of
                    Inl e \<Rightarrow> Inl e
                  | Inr result \<Rightarrow>
                      (case GeneratePlan result of
                         (None, result') \<Rightarrow> Inl NullPointerDereference
                       | (Some p, result') \<Rightarrow>
                           Inr (result' \<lparr> plan := Some p \<rparr>,
                                return_types @ map snd (columns p),
                                names @ map fst (columns p)))))"

text \<open>
  \<^verbatim>\<open>Scan\<close> executes the stored plan and fetches one chunk. The execution belongs to the
  host engine and the CSV reader: it is the parameter \<open>Execute_Fetch\<close>, which for a plan
  gives an error, no chunk (\<^verbatim>\<open>Fetch\<close> returned null) or a chunk. The output chunk is
  passed in and returned; it is left as it was when \<^verbatim>\<open>Scan\<close> returns early.
\<close>

definition Scan ::
  "(ReadCSVRelation \<Rightarrow> error + 'chunk option) \<Rightarrow> YahooFunctionData \<Rightarrow> 'chunk \<Rightarrow>
   error + ('chunk \<times> YahooFunctionData)" where
  "Scan Execute_Fetch data output =
     (case plan data of
        None \<Rightarrow> Inr (output, data)
      | Some p \<Rightarrow>
          (case Execute_Fetch p of
             Inl e \<Rightarrow> Inl e
           | Inr None \<Rightarrow> Inr (output, data)
           | Inr (Some result_chunk) \<Rightarrow>
               (case GeneratePlan data of
                  (p', data') \<Rightarrow> Inr (result_chunk, data' \<lparr> plan := p' \<rparr>))))"

section \<open>Repeated calls\<close>

text \<open>
  The host calls the compute-next-window step \<^verbatim>\<open>GeneratePlan\<close> once in \<^verbatim>\<open>Bind\<close> and once
  more in every \<^verbatim>\<open>Scan\<close> that fetched a chunk, until it returns null. \<open>windows\<close> makes
  these calls from a given bind data and lists the bounds \<^verbatim>\<open>(from_epoch, cur_to_epoch)\<close>
  that each issued request was built from. The calls need not end (a step that is not
  positive never passes \<^verbatim>\<open>to_epoch\<close>), so they are counted: \<open>None\<close> when the given
  number of calls did not reach the null plan.
\<close>

fun windows :: "nat \<Rightarrow> YahooFunctionData \<Rightarrow> (int \<times> int) list option" where
  "windows 0 bind_data = None"
| "windows (Suc calls) bind_data =
     (case GeneratePlan bind_data of
        (None, bind_data') \<Rightarrow> Some []
      | (Some p, bind_data') \<Rightarrow>
          map_option ((#) (from_epoch bind_data, cur_to_epoch bind_data))
            (windows calls bind_data'))"

text \<open>
  The calls from a freshly constructed bind data: the windows of a request. A failed
  construction issues no window and is \<open>None\<close> as well.
\<close>

definition request_windows ::
  "nat \<Rightarrow> string \<Rightarrow> int \<Rightarrow> int \<Rightarrow> string \<Rightarrow> (int \<times> int) list option" where
  "request_windows calls symbol_p from_epoch_p to_epoch_p interval_p =
     (case YahooFunctionData_new symbol_p from_epoch_p to_epoch_p interval_p of
        Inl e \<Rightarrow> None
      | Inr bind_data \<Rightarrow> windows calls bind_data)"

text \<open>A point in time is covered when it lies within the bounds of an issued window.\<close>

definition covers :: "(int \<times> int) list \<Rightarrow> int \<Rightarrow> bool" where
  "covers ws x = list_ex (\<lambda>w. fst w \<le> x \<and> x \<le> snd w) ws"

text \<open>
  Two executions for \<^verbatim>\<open>Scan\<close> to run against: one whose fetch returns no chunk for any
  plan (an empty result), one that returns the same chunk of rows for every plan.
\<close>

definition empty_result :: "ReadCSVRelation \<Rightarrow> error + string list option" where
  "empty_result p = Inr None"

definition one_chunk :: "string list \<Rightarrow> ReadCSVRelation \<Rightarrow> error + string list option" where
  "one_chunk rows p = Inr (Some rows)"

text \<open>
  The two scenarios of the specification as arguments of \<^verbatim>\<open>Bind\<close>: ten days and four
  hundred days of daily samples of one symbol, from 2024-01-01 (day 19723 of the epoch).
\<close>

definition ten_days :: TableFunctionBindInput where
  "ten_days = \<lparr> symbol_input = ''AAPL'', from_type = DATE, from_date = Inr 19723,
                 to_type = DATE, to_date = Inr 19732, interval_input = ''1d'' \<rparr>"

definition four_hundred_days :: TableFunctionBindInput where
  "four_hundred_days = \<lparr> symbol_input = ''AAPL'', from_type = DATE, from_date = Inr 19723,
                          to_type = DATE, to_date = Inr 20123, interval_input = ''1d'' \<rparr>"

text \<open>
  The bind data \<^verbatim>\<open>Bind\<close> returns for the two scenarios: the plan of the first window is
  stored, the cursor stands one step further.
\<close>

definition ten_days_bound :: YahooFunctionData where
  "ten_days_bound =
     \<lparr> plan = Some \<lparr> url = ''https://query1.finance.yahoo.com/v7/finance/download/AAPL?period1=1704067200&period2=1704844800&interval=1d&events=history'',
                      columns = RowSchema,
                      named_parameters =
                        [(''HEADER'', BoolValue True), (''NULLSTR'', StringValue ''null'')] \<rparr>,
       symbol = ''AAPL'', from_epoch = 1704844800, cur_to_epoch = 1705622400,
       to_epoch = 1704844800, interval = ''1d'', increment_epoch = 777600 \<rparr>"

definition four_hundred_days_bound :: YahooFunctionData where
  "four_hundred_days_bound =
     \<lparr> plan = Some \<lparr> url = ''https://query1.finance.yahoo.com/v7/finance/download/AAPL?period1=1704067200&period2=1709004342&interval=1d&events=history'',
                      columns = RowSchema,
                      named_parameters =
                        [(''HEADER'', BoolValue True), (''NULLSTR'', StringValue ''null'')] \<rparr>,
       symbol = ''AAPL'', from_epoch = 1709004342, cur_to_epoch = 1713941484,
       to_epoch = 1738627200, interval = ''1d'', increment_epoch = 4937142 \<rparr>"

section \<open>The windowing of the specification\<close>

text \<open>
  The construction contract in the specification's words, over unbounded integers:
  the expected samples of a range at an interval, and the step size chosen from them.
\<close>

definition expectedSamples :: "int \<Rightarrow> int \<Rightarrow> string \<Rightarrow> int" where
  "expectedSamples fromEpoch toEpoch label =
     (toEpoch - fromEpoch) div IntervalInEpoch label + 1"

definition stepSize :: "int \<Rightarrow> int \<Rightarrow> string \<Rightarrow> int" where
  "stepSize fromEpoch toEpoch label =
     (if expectedSamples fromEpoch toEpoch label > 60
      then (toEpoch - fromEpoch) div (expectedSamples fromEpoch toEpoch label div 60 + 1)
      else toEpoch - fromEpoch)"

text \<open>
  The number of parts the range is divided into: the divisor of the step size, one part
  when the whole range is one request.
\<close>

definition windowCount :: "int \<Rightarrow> int \<Rightarrow> string \<Rightarrow> int" where
  "windowCount fromEpoch toEpoch label =
     (if expectedSamples fromEpoch toEpoch label > 60
      then expectedSamples fromEpoch toEpoch label div 60 + 1
      else 1)"

section \<open>Arithmetic of the machine integers\<close>

text \<open>A value within the range of its type is not changed by the wrap-around.\<close>

lemma int64_id: "- (2 ^ 63) \<le> x \<Longrightarrow> x < 2 ^ 63 \<Longrightarrow> int64 x = x"
  unfolding int64_def by (simp add: mod_pos_pos_trivial)

lemma int32_id: "- (2 ^ 31) \<le> x \<Longrightarrow> x < 2 ^ 31 \<Longrightarrow> int32 x = x"
  unfolding int32_def by (simp add: mod_pos_pos_trivial)

lemma int32_range: "- (2 ^ 31) \<le> int32 x \<and> int32 x < 2 ^ 31"
  unfolding int32_def by simp

lemma int32_le: "- (2 ^ 31) \<le> x \<Longrightarrow> int32 x \<le> x"
proof -
  assume a: "- (2 ^ 31) \<le> x"
  have "(x + 2 ^ 31) mod 2 ^ 32 \<le> x + 2 ^ 31"
    using a by (intro zmod_le_nonneg_dividend) simp
  then show ?thesis unfolding int32_def by simp
qed

lemma sdiv_nonneg: "0 \<le> a \<Longrightarrow> 0 < b \<Longrightarrow> a sdiv b = a div (b::int)"
  by (simp add: signed_divide_int_def sgn_if)

lemma div_le_self_int: "0 \<le> a \<Longrightarrow> 0 < b \<Longrightarrow> a div b \<le> (a::int)"
proof -
  assume a: "0 \<le> a" "0 < b"
  have "a div b \<le> a div 1" using a by (intro zdiv_mono2) simp_all
  then show ?thesis by simp
qed

lemma div64_pos: "0 \<le> a \<Longrightarrow> a < 2 ^ 63 \<Longrightarrow> 0 < b \<Longrightarrow> div64 a b = Some (a div b)"
proof -
  assume a: "0 \<le> a" "a < 2 ^ 63" "0 < b"
  have "a div b \<le> a div 1" using a by (intro zdiv_mono2) simp_all
  then have "a div b \<le> a" by simp
  moreover have "0 \<le> a div b" using a by (simp add: pos_imp_zdiv_nonneg_iff)
  ultimately show ?thesis using a by (simp add: div64_def sdiv_nonneg int64_id)
qed

section \<open>The interval calendar\<close>

lemma IntervalInEpoch_valid:
  "i \<in> set valid_interval \<Longrightarrow> 86400 \<le> IntervalInEpoch i \<and> IntervalInEpoch i \<le> 7776000"
  by (auto simp add: valid_interval_def IntervalInEpoch_def SECS_PER_DAY_def int64_def)

text \<open>
  C8. For each of the five supported interval labels \<^verbatim>\<open>IntervalInEpoch\<close> returns the
  documented number of seconds (one day is 86400 seconds; five, seven, thirty and ninety
  days for the others), and for every other string it returns 0.
\<close>

theorem IntervalInEpoch_values:
  "IntervalInEpoch ''1d'' = 86400 \<and>
   IntervalInEpoch ''5d'' = 5 * 86400 \<and>
   IntervalInEpoch ''1wk'' = 7 * 86400 \<and>
   IntervalInEpoch ''1mo'' = 30 * 86400 \<and>
   IntervalInEpoch ''3mo'' = 90 * 86400 \<and>
   (\<forall>label. label \<notin> {''1d'', ''5d'', ''1wk'', ''1mo'', ''3mo''} \<longrightarrow> IntervalInEpoch label = 0)"
  by (simp add: IntervalInEpoch_def SECS_PER_DAY_def int64_def)

theorem IntervalInEpoch_values_witness:
  "''2d'' \<notin> {''1d'', ''5d'', ''1wk'', ''1mo'', ''3mo''} \<and> IntervalInEpoch ''2d'' = 0 \<and>
   IntervalInEpoch ''1D'' = 0 \<and> IntervalInEpoch '''' = 0"
  using IntervalInEpoch_values by simp

text \<open>
  C9. Once \<^verbatim>\<open>ValidInterval\<close> has accepted the label, the duration \<^verbatim>\<open>IntervalInEpoch\<close>
  returns for it is strictly positive, and the constructor divides by zero for no range:
  neither by the duration nor by \<^verbatim>\<open>expected_tuples / 60 + 1\<close>.
\<close>

theorem no_division_by_zero:
  assumes "ValidInterval i = Inr ()"
  shows "0 < IntervalInEpoch i \<and> YahooFunctionData_new s f t i \<noteq> Inl DivisionByZero"
proof -
  have i: "i \<in> set valid_interval" using assms by (simp add: ValidInterval_def split: if_splits)
  have I: "0 < IntervalInEpoch i" using IntervalInEpoch_valid [OF i] by simp
  define e where "e = int32 (int64 (int64 (int64 (t - f) sdiv IntervalInEpoch i) + 1))"
  have d1: "div64 (int64 (t - f)) (IntervalInEpoch i) = Some (int64 (int64 (t - f) sdiv IntervalInEpoch i))"
    using I by (simp add: div64_def)
  have d2: "60 < e \<Longrightarrow> int32 (int32 (e sdiv 60) + 1) \<noteq> 0"
  proof -
    assume gt: "60 < e"
    have er: "e < 2 ^ 31" using int32_range [of "int64 (int64 (int64 (t - f) sdiv IntervalInEpoch i) + 1)"]
      by (simp add: e_def)
    have s60: "e sdiv 60 = e div 60" using gt by (intro sdiv_nonneg) simp_all
    have m: "1 \<le> e div 60" "e div 60 + 1 \<le> e" using gt by simp_all
    have a: "int32 (e div 60) = e div 60" using m er by (intro int32_id) simp_all
    have b: "int32 (e div 60 + 1) = e div 60 + 1" using m er by (intro int32_id) simp_all
    show ?thesis using m by (simp add: s60 a b)
  qed
  have "YahooFunctionData_new s f t i \<noteq> Inl DivisionByZero"
    unfolding YahooFunctionData_new_def Let_def d1 option.case e_def [symmetric]
    using d2 by (cases "60 < e") (simp_all add: div64_def)
  then show ?thesis using I by simp
qed

theorem no_division_by_zero_witness:
  "ValidInterval ''1wk'' = Inr () \<and> 0 < IntervalInEpoch ''1wk'' \<and>
   YahooFunctionData_new ''AAPL'' 1704067200 1704844800 ''1wk'' \<noteq> Inl DivisionByZero"
proof -
  have h: "ValidInterval ''1wk'' = Inr ()"
    by (simp add: ValidInterval_def valid_interval_def)
  show ?thesis
    using h no_division_by_zero [OF h, of "''AAPL''" 1704067200 1704844800] by simp
qed

text \<open>
  Without the validation the division is by zero: the constructor on a label that
  \<^verbatim>\<open>ValidInterval\<close> rejects fails at its first division.
\<close>

lemma unvalidated_interval_divides_by_zero:
  "i \<notin> set valid_interval \<Longrightarrow> YahooFunctionData_new s f t i = Inl DivisionByZero"
  by (simp add: YahooFunctionData_new_def IntervalInEpoch_def valid_interval_def div64_def)

section \<open>The constructor\<close>

text \<open>
  The constructor on a range that fits 64 bits: no operation wraps except the narrowing
  of the sample count, and the step is positive whatever the narrowing gives.
\<close>

lemma YahooFunctionData_new_eq:
  assumes i: "i \<in> set valid_interval" and lt: "f < t"
    and lo: "- (2 ^ 61) \<le> f" and hi: "t \<le> 2 ^ 61"
  defines "e \<equiv> int32 ((t - f) div IntervalInEpoch i + 1)"
  defines "inc \<equiv> (if e > 60 then (t - f) div (e div 60 + 1) else t - f)"
  shows "YahooFunctionData_new s f t i =
           Inr \<lparr> plan = None, symbol = s, from_epoch = f,
                 cur_to_epoch = (if f + inc < t then f + inc else t),
                 to_epoch = t, interval = i, increment_epoch = inc \<rparr>"
    and "0 \<le> inc" and "inc \<le> t - f"
proof -
  let ?D = "t - f" and ?I = "IntervalInEpoch i"
  have I: "0 < ?I" using IntervalInEpoch_valid [OF i] by simp
  have D: "0 < ?D" "?D < 2 ^ 63" "?D \<le> 2 ^ 62" using lt lo hi by simp_all
  have D64: "int64 ?D = ?D" using D by (intro int64_id) simp_all
  have q: "0 \<le> ?D div ?I" "?D div ?I \<le> ?D"
    using D I by (simp_all add: pos_imp_zdiv_nonneg_iff div_le_self_int)
  have d1: "div64 ?D ?I = Some (?D div ?I)" using D I by (intro div64_pos) simp_all
  have q64: "int64 (?D div ?I + 1) = ?D div ?I + 1" using q D by (intro int64_id) simp_all
  have inc: "0 \<le> inc \<and> inc \<le> ?D \<and>
      (if e > 60 then div64 ?D (int32 (int32 (e sdiv 60) + 1)) else Some ?D) = Some inc"
  proof (cases "e > 60")
    case True
    have er: "e < 2 ^ 31" using int32_range [of "?D div ?I + 1"] by (simp add: e_def)
    have s60: "e sdiv 60 = e div 60" using True by (intro sdiv_nonneg) simp_all
    have m: "1 \<le> e div 60" "e div 60 + 1 \<le> e" using True by simp_all
    have a: "int32 (e div 60) = e div 60" using m er by (intro int32_id) simp_all
    have b: "int32 (e div 60 + 1) = e div 60 + 1" using m er by (intro int32_id) simp_all
    have c: "div64 ?D (e div 60 + 1) = Some (?D div (e div 60 + 1))"
      using D m by (intro div64_pos) simp_all
    have "0 \<le> ?D div (e div 60 + 1)" "?D div (e div 60 + 1) \<le> ?D"
      using D m by (simp_all add: pos_imp_zdiv_nonneg_iff div_le_self_int)
    then show ?thesis using True by (simp add: inc_def s60 a b c)
  next
    case False
    then show ?thesis using D by (simp add: inc_def)
  qed
  then show "0 \<le> inc" and "inc \<le> t - f" by simp_all
  have s64: "int64 (f + inc) = f + inc" using inc lo hi lt by (intro int64_id) simp_all
  show "YahooFunctionData_new s f t i =
           Inr \<lparr> plan = None, symbol = s, from_epoch = f,
                 cur_to_epoch = (if f + inc < t then f + inc else t),
                 to_epoch = t, interval = i, increment_epoch = inc \<rparr>"
    using inc unfolding YahooFunctionData_new_def Let_def D64 d1 option.case q64 e_def [symmetric]
    by (simp add: D64 s64)
qed

lemma increment_positive:
  assumes i: "i \<in> set valid_interval" and lt: "f < t"
  defines "e \<equiv> int32 ((t - f) div IntervalInEpoch i + 1)"
  shows "0 < (if e > 60 then (t - f) div (e div 60 + 1) else t - f)"
proof (cases "e > 60")
  case False
  then show ?thesis using lt by simp
next
  case True
  let ?D = "t - f" and ?I = "IntervalInEpoch i"
  have I: "86400 \<le> ?I" using IntervalInEpoch_valid [OF i] by simp
  have D: "0 < ?D" using lt by simp
  have q: "0 \<le> ?D div ?I" using D I by (simp add: pos_imp_zdiv_nonneg_iff)
  have "e \<le> ?D div ?I + 1" unfolding e_def using q by (intro int32_le) simp
  then have q60: "60 \<le> ?D div ?I" using True by simp
  have "?D = ?I * (?D div ?I) + ?D mod ?I" by simp
  moreover have "0 \<le> ?D mod ?I" using I by simp
  ultimately have "?I * (?D div ?I) \<le> ?D" by linarith
  moreover have "?I * 60 \<le> ?I * (?D div ?I)" using q60 I by (intro mult_left_mono) simp_all
  ultimately have big: "60 * ?I \<le> ?D" by linarith
  have "?D div ?I \<le> ?D div 86400" using D I by (intro zdiv_mono2) simp_all
  moreover have "?D div 86400 + 1 \<le> ?D" using big I by simp
  ultimately have "e div 60 + 1 \<le> ?D" using \<open>e \<le> ?D div ?I + 1\<close> True by simp
  moreover have "0 < e div 60 + 1" using True by simp
  ultimately have "0 < ?D div (e div 60 + 1)" by (simp add: pos_imp_zdiv_pos_iff)
  then show ?thesis using True by simp
qed

text \<open>The epochs of dates: \<^verbatim>\<open>Date::Epoch\<close> of a 32-bit day count never wraps.\<close>

lemma Epoch_eq: "Epoch d = sint d * 86400"
proof -
  have "- (2 ^ 31) \<le> sint d" "sint d < 2 ^ 31"
    using sint_ge [of d] sint_lt [of d] by simp_all
  then show ?thesis unfolding Epoch_def SECS_PER_DAY_def by (intro int64_id) simp_all
qed

lemma Epoch_bounds: "- (2 ^ 61) \<le> Epoch d" "Epoch d \<le> 2 ^ 61"
  using sint_ge [of d] sint_lt [of d] by (simp_all add: Epoch_eq)

lemma Epoch_less: "sint a < sint b \<Longrightarrow> Epoch a < Epoch b"
  by (simp add: Epoch_eq)

lemma no_narrowing:
  assumes i: "i \<in> set valid_interval" and lt: "f < t" and R: "t - f \<le> 86400 * 2 ^ 28"
  shows "int32 ((t - f) div IntervalInEpoch i + 1) = expectedSamples f t i"
proof -
  let ?D = "t - f" and ?I = "IntervalInEpoch i"
  have I: "86400 \<le> ?I" using IntervalInEpoch_valid [OF i] by simp
  have q: "0 \<le> ?D div ?I" using lt I by (simp add: pos_imp_zdiv_nonneg_iff)
  have "?D div ?I \<le> ?D div 86400" using lt I by (intro zdiv_mono2) simp_all
  also have "\<dots> \<le> (86400 * 2 ^ 28) div 86400" using R by (intro zdiv_mono1) simp_all
  finally have "?D div ?I \<le> 2 ^ 28" by simp
  then show ?thesis unfolding expectedSamples_def using q by (intro int32_id) simp_all
qed

text \<open>
  On ranges of up to \<open>2 ^ 28\<close> days the constructor computes the step size of the
  specification, and a range of at most sixty samples is one window.
\<close>

lemma construction_in_range:
  assumes i: "i \<in> set valid_interval" and lt: "sint fd < sint td"
    and R: "sint td - sint fd \<le> 2 ^ 28"
  shows "YahooFunctionData_new s (Epoch fd) (Epoch td) i =
           Inr \<lparr> plan = None, symbol = s, from_epoch = Epoch fd,
                 cur_to_epoch = min (Epoch fd + stepSize (Epoch fd) (Epoch td) i) (Epoch td),
                 to_epoch = Epoch td, interval = i,
                 increment_epoch = stepSize (Epoch fd) (Epoch td) i \<rparr>"
proof -
  let ?f = "Epoch fd" and ?t = "Epoch td"
  have ft: "?f < ?t" using lt by (rule Epoch_less)
  have DR: "?t - ?f \<le> 86400 * 2 ^ 28" using R by (simp add: Epoch_eq)
  have e: "int32 ((?t - ?f) div IntervalInEpoch i + 1) = expectedSamples ?f ?t i"
    using i ft DR by (rule no_narrowing)
  have inc: "(if 60 < expectedSamples ?f ?t i
              then (?t - ?f) div (expectedSamples ?f ?t i div 60 + 1) else ?t - ?f)
             = stepSize ?f ?t i"
    by (simp add: stepSize_def)
  have c: "(if ?f + stepSize ?f ?t i < ?t then ?f + stepSize ?f ?t i else ?t)
             = min (?f + stepSize ?f ?t i) ?t"
    by (simp add: min_def)
  show ?thesis
    using YahooFunctionData_new_eq(1) [OF i ft Epoch_bounds(1) Epoch_bounds(2), of s]
    unfolding e inc c .
qed

section \<open>Evaluation of the scenarios\<close>

lemmas eval_new = YahooFunctionData_new_def IntervalInEpoch_def SECS_PER_DAY_def div64_def
        sdiv_nonneg int64_def int32_def

lemmas eval_plan = GeneratePlan_def Let_def to_string_def nat_digits.simps

lemma Bind_ten_days:
  "Bind ten_days [] [] =
     Inr (ten_days_bound, [DATE, DOUBLE, DOUBLE, DOUBLE, DOUBLE, DOUBLE, HUGEINT],
          [''Date'', ''Open'', ''High'', ''Low'', ''Close'', ''Adj Close'', ''Volume''])"
  by (simp add: Bind_def ten_days_def ValidInterval_def valid_interval_def Epoch_eq eval_new
       eval_plan RowSchema_def ten_days_bound_def)

lemma Bind_four_hundred_days:
  "Bind four_hundred_days [] [] =
     Inr (four_hundred_days_bound, [DATE, DOUBLE, DOUBLE, DOUBLE, DOUBLE, DOUBLE, HUGEINT],
          [''Date'', ''Open'', ''High'', ''Low'', ''Close'', ''Adj Close'', ''Volume''])"
  by (simp add: Bind_def four_hundred_days_def ValidInterval_def valid_interval_def Epoch_eq eval_new
       eval_plan RowSchema_def four_hundred_days_bound_def)

lemma new_ten_days:
  "YahooFunctionData_new ''AAPL'' (Epoch 19723) (Epoch 19732) ''1d'' =
     Inr \<lparr> plan = None, symbol = ''AAPL'', from_epoch = 1704067200,
           cur_to_epoch = 1704844800, to_epoch = 1704844800, interval = ''1d'',
           increment_epoch = 777600 \<rparr>"
  by (simp add: Epoch_eq eval_new)

lemma new_four_hundred_days:
  "YahooFunctionData_new ''AAPL'' (Epoch 19723) (Epoch 20123) ''1d'' =
     Inr \<lparr> plan = None, symbol = ''AAPL'', from_epoch = 1704067200,
           cur_to_epoch = 1709004342, to_epoch = 1738627200, interval = ''1d'',
           increment_epoch = 4937142 \<rparr>"
  by (simp add: Epoch_eq eval_new)

lemma samples_four_hundred_days:
  "expectedSamples (Epoch 19723) (Epoch 20123) ''1d'' = 401"
  "stepSize (Epoch 19723) (Epoch 20123) ''1d'' = 4937142"
  by (simp_all add: expectedSamples_def stepSize_def Epoch_eq IntervalInEpoch_def SECS_PER_DAY_def)

text \<open>
  C4. Construction computes the expected samples as the range divided by the seconds
  of the interval plus one, and from them the step size: the range divided by
  \<open>expectedSamples / 60 + 1\<close> above sixty samples, the whole range otherwise. The code
  stores the samples in an \<^verbatim>\<open>int\<close>: for the daily samples of the \<open>2 ^ 31 - 1\<close> days
  from day \<open>- 1073741824\<close> to day \<open>1073741823\<close>, the \<open>2 ^ 31\<close> expected samples are
  narrowed to a negative count, the step is the whole range instead of 5183999 seconds,
  and the one window issued is the whole range.
\<close>

theorem expected_tuples_narrowed:
  "YahooFunctionData_new ''AAPL'' (Epoch (- 1073741824)) (Epoch 1073741823) ''1d'' =
     Inr \<lparr> plan = None, symbol = ''AAPL'', from_epoch = - 92771293593600,
           cur_to_epoch = 92771293507200, to_epoch = 92771293507200, interval = ''1d'',
           increment_epoch = 185542587100800 \<rparr> \<and>
   request_windows 2 ''AAPL'' (Epoch (- 1073741824)) (Epoch 1073741823) ''1d'' =
     Some [(- 92771293593600, 92771293507200)] \<and>
   expectedSamples (Epoch (- 1073741824)) (Epoch 1073741823) ''1d'' = 2147483648 \<and>
   stepSize (Epoch (- 1073741824)) (Epoch 1073741823) ''1d'' = 5183999"
proof -
  have new: "YahooFunctionData_new ''AAPL'' (Epoch (- 1073741824)) (Epoch 1073741823) ''1d'' =
     Inr \<lparr> plan = None, symbol = ''AAPL'', from_epoch = - 92771293593600,
           cur_to_epoch = 92771293507200, to_epoch = 92771293507200, interval = ''1d'',
           increment_epoch = 185542587100800 \<rparr>"
    by (simp add: Epoch_eq eval_new)
  have w: "request_windows 2 ''AAPL'' (Epoch (- 1073741824)) (Epoch 1073741823) ''1d'' =
     Some [(- 92771293593600, 92771293507200)]"
    unfolding request_windows_def new
    by (simp add: eval_nat_numeral GeneratePlan_def Let_def int64_def)
  have s: "expectedSamples (Epoch (- 1073741824)) (Epoch 1073741823) ''1d'' = 2147483648"
      "stepSize (Epoch (- 1073741824)) (Epoch 1073741823) ''1d'' = 5183999"
    by (simp_all add: expectedSamples_def stepSize_def Epoch_eq IntervalInEpoch_def
          SECS_PER_DAY_def)
  show ?thesis using new w s by simp
qed

section \<open>The compute-next-window step\<close>

lemma GeneratePlan_None:
  "cur_to_epoch s > to_epoch s \<Longrightarrow> GeneratePlan s = (None, s)"
  by (simp add: GeneratePlan_def)

lemma GeneratePlan_Some:
  "\<not> cur_to_epoch s > to_epoch s \<Longrightarrow>
   GeneratePlan s =
     (Some \<lparr> url = ''https://query1.finance.yahoo.com/v7/finance/download/'' @ symbol s @
                    ''?period1='' @ to_string (from_epoch s) @
                    ''&period2='' @ to_string (cur_to_epoch s) @
                    ''&interval='' @ interval s @ ''&events=history'',
              columns = RowSchema,
              named_parameters =
                [(''HEADER'', BoolValue True), (''NULLSTR'', StringValue ''null'')] \<rparr>,
      s \<lparr> from_epoch := int64 (from_epoch s + increment_epoch s),
          cur_to_epoch := int64 (cur_to_epoch s + increment_epoch s) \<rparr>)"
  by (simp add: GeneratePlan_def Let_def)

text \<open>
  C7. Every issued request is built from exactly the symbol, \<open>period1\<close> and \<open>period2\<close>
  as the decimal text of \<^verbatim>\<open>from_epoch\<close> and \<^verbatim>\<open>cur_to_epoch\<close> before the advance, the
  interval, and the fixed \<open>events=history\<close>; the CSV reader is handed the seven columns
  Date (date), Open, High, Low, Close, Adj Close (double) and Volume (hugeint) in this
  order, with a header row and the text \<open>null\<close> as the missing value. The columns are
  the same list \<open>RowSchema\<close> for every request.
\<close>

theorem request_parameters:
  assumes "fst (GeneratePlan data) = Some p"
  shows "url p = ''https://query1.finance.yahoo.com/v7/finance/download/'' @ symbol data @
                 ''?period1='' @ to_string (from_epoch data) @
                 ''&period2='' @ to_string (cur_to_epoch data) @
                 ''&interval='' @ interval data @ ''&events=history'' \<and>
         columns p = [(''Date'', DATE), (''Open'', DOUBLE), (''High'', DOUBLE), (''Low'', DOUBLE),
                      (''Close'', DOUBLE), (''Adj Close'', DOUBLE), (''Volume'', HUGEINT)] \<and>
         columns p = RowSchema \<and>
         named_parameters p = [(''HEADER'', BoolValue True), (''NULLSTR'', StringValue ''null'')]"
proof (cases "to_epoch data < cur_to_epoch data")
  case True
  then show ?thesis using assms by (simp add: GeneratePlan_None)
next
  case False
  then show ?thesis using assms by (auto simp add: GeneratePlan_Some RowSchema_def)
qed

theorem request_parameters_witness:
  "fst (GeneratePlan \<lparr> plan = None, symbol = ''AAPL'', from_epoch = 1704067200,
          cur_to_epoch = 1704844800, to_epoch = 1704844800, interval = ''1d'',
          increment_epoch = 777600 \<rparr>) = plan ten_days_bound \<and>
   (\<exists>p. plan ten_days_bound = Some p \<and>
     url p = ''https://query1.finance.yahoo.com/v7/finance/download/AAPL?period1=1704067200&period2=1704844800&interval=1d&events=history'' \<and>
     columns p = RowSchema \<and>
     named_parameters p = [(''HEADER'', BoolValue True), (''NULLSTR'', StringValue ''null'')])"
proof -
  let ?st = "\<lparr> plan = None, symbol = ''AAPL'', from_epoch = 1704067200,
          cur_to_epoch = 1704844800, to_epoch = 1704844800, interval = ''1d'',
          increment_epoch = 777600 \<rparr>"
  obtain p where p: "plan ten_days_bound = Some p" by (simp add: ten_days_bound_def)
  have g: "fst (GeneratePlan ?st) = Some p"
    using p by (simp add: eval_plan ten_days_bound_def)
  have "url p = ''https://query1.finance.yahoo.com/v7/finance/download/AAPL?period1=1704067200&period2=1704844800&interval=1d&events=history'' \<and>
     columns p = RowSchema \<and>
     named_parameters p = [(''HEADER'', BoolValue True), (''NULLSTR'', StringValue ''null'')]"
    using request_parameters [OF g] by (simp add: to_string_def nat_digits.simps RowSchema_def)
  then show ?thesis using g p by simp
qed

text \<open>
  C10. Whenever the compute-next-window step returns a plan, it adds \<^verbatim>\<open>increment_epoch\<close>
  to \<^verbatim>\<open>from_epoch\<close> and to \<^verbatim>\<open>cur_to_epoch\<close> (64-bit additions, exact whenever the sums
  are representable) and leaves symbol, interval, \<^verbatim>\<open>to_epoch\<close>, \<^verbatim>\<open>increment_epoch\<close> and
  the stored plan as they were. \<^verbatim>\<open>Bind\<close> makes one such call on the constructed bind
  data: the plan it stores is the plan of the first window, and the cursor it returns
  is the constructed one advanced by one step, exactly.
\<close>

theorem GeneratePlan_advances:
  "(fst (GeneratePlan data) = Some p \<longrightarrow>
      from_epoch (snd (GeneratePlan data)) = int64 (from_epoch data + increment_epoch data) \<and>
      cur_to_epoch (snd (GeneratePlan data)) = int64 (cur_to_epoch data + increment_epoch data) \<and>
      symbol (snd (GeneratePlan data)) = symbol data \<and>
      interval (snd (GeneratePlan data)) = interval data \<and>
      to_epoch (snd (GeneratePlan data)) = to_epoch data \<and>
      increment_epoch (snd (GeneratePlan data)) = increment_epoch data \<and>
      plan (snd (GeneratePlan data)) = plan data \<and>
      (- (2 ^ 63) \<le> from_epoch data + increment_epoch data \<and>
       from_epoch data + increment_epoch data < 2 ^ 63 \<longrightarrow>
         from_epoch (snd (GeneratePlan data)) = from_epoch data + increment_epoch data) \<and>
      (- (2 ^ 63) \<le> cur_to_epoch data + increment_epoch data \<and>
       cur_to_epoch data + increment_epoch data < 2 ^ 63 \<longrightarrow>
         cur_to_epoch (snd (GeneratePlan data)) = cur_to_epoch data + increment_epoch data)) \<and>
   (Bind input return_types names = Inr (result, return_types', names') \<longrightarrow>
      (\<exists>from_date' to_date' constructed first.
         from_date input = Inr from_date' \<and> to_date input = Inr to_date' \<and>
         YahooFunctionData_new (symbol_input input) (Epoch from_date')
           (Epoch to_date') (interval_input input) = Inr constructed \<and>
         GeneratePlan constructed = (Some first, result \<lparr> plan := None \<rparr>) \<and>
         plan result = Some first \<and>
         from_epoch constructed = Epoch from_date' \<and>
         from_epoch result = from_epoch constructed + increment_epoch constructed \<and>
         cur_to_epoch result = cur_to_epoch constructed + increment_epoch constructed \<and>
         symbol result = symbol constructed \<and> interval result = interval constructed \<and>
         to_epoch result = to_epoch constructed \<and>
         increment_epoch result = increment_epoch constructed))"
proof -
  have step: "fst (GeneratePlan data) = Some p \<longrightarrow>
      from_epoch (snd (GeneratePlan data)) = int64 (from_epoch data + increment_epoch data) \<and>
      cur_to_epoch (snd (GeneratePlan data)) = int64 (cur_to_epoch data + increment_epoch data) \<and>
      symbol (snd (GeneratePlan data)) = symbol data \<and>
      interval (snd (GeneratePlan data)) = interval data \<and>
      to_epoch (snd (GeneratePlan data)) = to_epoch data \<and>
      increment_epoch (snd (GeneratePlan data)) = increment_epoch data \<and>
      plan (snd (GeneratePlan data)) = plan data \<and>
      (- (2 ^ 63) \<le> from_epoch data + increment_epoch data \<and>
       from_epoch data + increment_epoch data < 2 ^ 63 \<longrightarrow>
         from_epoch (snd (GeneratePlan data)) = from_epoch data + increment_epoch data) \<and>
      (- (2 ^ 63) \<le> cur_to_epoch data + increment_epoch data \<and>
       cur_to_epoch data + increment_epoch data < 2 ^ 63 \<longrightarrow>
         cur_to_epoch (snd (GeneratePlan data)) = cur_to_epoch data + increment_epoch data)"
  proof (cases "to_epoch data < cur_to_epoch data")
    case True
    then show ?thesis by (simp add: GeneratePlan_None)
  next
    case False
    then show ?thesis by (simp add: GeneratePlan_Some int64_id)
  qed
  have bind: "Bind input return_types names = Inr (result, return_types', names') \<longrightarrow>
      (\<exists>from_date' to_date' constructed first.
         from_date input = Inr from_date' \<and> to_date input = Inr to_date' \<and>
         YahooFunctionData_new (symbol_input input) (Epoch from_date')
           (Epoch to_date') (interval_input input) = Inr constructed \<and>
         GeneratePlan constructed = (Some first, result \<lparr> plan := None \<rparr>) \<and>
         plan result = Some first \<and>
         from_epoch constructed = Epoch from_date' \<and>
         from_epoch result = from_epoch constructed + increment_epoch constructed \<and>
         cur_to_epoch result = cur_to_epoch constructed + increment_epoch constructed \<and>
         symbol result = symbol constructed \<and> interval result = interval constructed \<and>
         to_epoch result = to_epoch constructed \<and>
         increment_epoch result = increment_epoch constructed)"
  proof
    assume b: "Bind input return_types names = Inr (result, return_types', names')"
    from b have ty: "from_type input = VARCHAR \<or> from_type input = DATE"
        "to_type input = VARCHAR \<or> to_type input = DATE"
      by (auto simp add: Bind_def split: if_splits)
    from b obtain fd td where fd: "from_date input = Inr fd" and td: "to_date input = Inr td"
      by (auto simp add: Bind_def split: if_splits sum.splits)
    let ?f = "Epoch fd" and ?t = "Epoch td"
    let ?i = "interval_input input"
    from b have i: "?i \<in> set valid_interval"
      using ty fd td by (auto simp add: Bind_def ValidInterval_def Let_def split: if_splits)
    from b have lt: "sint fd < sint td"
      using ty fd td by (auto simp add: Bind_def ValidInterval_def Let_def split: if_splits)
    have ft: "?f < ?t" using lt by (rule Epoch_less)
    define e where "e = int32 ((?t - ?f) div IntervalInEpoch ?i + 1)"
    define inc where "inc = (if e > 60 then (?t - ?f) div (e div 60 + 1) else ?t - ?f)"
    define c where "c = (if ?f + inc < ?t then ?f + inc else ?t)"
    define st where "st = \<lparr> plan = None, symbol = symbol_input input, from_epoch = ?f,
       cur_to_epoch = c, to_epoch = ?t, interval = ?i, increment_epoch = inc \<rparr>"
    have new: "YahooFunctionData_new (symbol_input input) ?f ?t ?i = Inr st"
      unfolding st_def c_def inc_def e_def
      by (rule YahooFunctionData_new_eq(1) [OF i ft Epoch_bounds(1) Epoch_bounds(2)])
    have inc0: "0 \<le> inc" unfolding inc_def e_def
      by (rule YahooFunctionData_new_eq(2) [OF i ft Epoch_bounds(1) Epoch_bounds(2)])
    have incD: "inc \<le> ?t - ?f" unfolding inc_def e_def
      by (rule YahooFunctionData_new_eq(3) [OF i ft Epoch_bounds(1) Epoch_bounds(2)])
    have cle: "c \<le> ?t" "?f \<le> c" using inc0 ft by (simp_all add: c_def)
    have not_done: "\<not> to_epoch st < cur_to_epoch st" using cle by (simp add: st_def)
    have f64: "int64 (?f + inc) = ?f + inc"
      using inc0 incD Epoch_bounds [of fd] Epoch_bounds [of td]
      by (intro int64_id) simp_all
    have c64: "int64 (c + inc) = c + inc"
      using inc0 incD cle Epoch_bounds [of fd] Epoch_bounds [of td]
      by (intro int64_id) simp_all
    obtain first where g: "GeneratePlan st =
        (Some first, st \<lparr> from_epoch := ?f + inc, cur_to_epoch := c + inc \<rparr>)"
      using GeneratePlan_Some [OF not_done] f64 c64 by (simp add: st_def)
    have res: "result = st \<lparr> from_epoch := ?f + inc, cur_to_epoch := c + inc, plan := Some first \<rparr>"
      using b i lt ty by (auto simp add: Bind_def ValidInterval_def Let_def fd td new g)
    show "\<exists>from_date' to_date' constructed first.
         from_date input = Inr from_date' \<and> to_date input = Inr to_date' \<and>
         YahooFunctionData_new (symbol_input input) (Epoch from_date')
           (Epoch to_date') ?i = Inr constructed \<and>
         GeneratePlan constructed = (Some first, result \<lparr> plan := None \<rparr>) \<and>
         plan result = Some first \<and>
         from_epoch constructed = Epoch from_date' \<and>
         from_epoch result = from_epoch constructed + increment_epoch constructed \<and>
         cur_to_epoch result = cur_to_epoch constructed + increment_epoch constructed \<and>
         symbol result = symbol constructed \<and> interval result = interval constructed \<and>
         to_epoch result = to_epoch constructed \<and>
         increment_epoch result = increment_epoch constructed"
      using new g fd td
      by (intro exI [of _ fd] exI [of _ td] exI [of _ st] exI [of _ first])
         (simp add: res st_def)
  qed
  show ?thesis using step bind by blast
qed

theorem GeneratePlan_advances_witness:
  "Bind ten_days [] [] =
     Inr (ten_days_bound, [DATE, DOUBLE, DOUBLE, DOUBLE, DOUBLE, DOUBLE, HUGEINT],
          [''Date'', ''Open'', ''High'', ''Low'', ''Close'', ''Adj Close'', ''Volume'']) \<and>
   (\<exists>constructed first.
      YahooFunctionData_new ''AAPL'' (Epoch 19723) (Epoch 19732) ''1d'' = Inr constructed \<and>
      GeneratePlan constructed = (Some first, ten_days_bound \<lparr> plan := None \<rparr>) \<and>
      plan ten_days_bound = Some first \<and>
      from_epoch ten_days_bound = from_epoch constructed + increment_epoch constructed \<and>
      cur_to_epoch ten_days_bound =
        cur_to_epoch constructed + increment_epoch constructed)"
proof -
  note b = Bind_ten_days
  have "\<exists>from_date' to_date' constructed first.
         from_date ten_days = Inr from_date' \<and> to_date ten_days = Inr to_date' \<and>
         YahooFunctionData_new (symbol_input ten_days) (Epoch from_date')
           (Epoch to_date') (interval_input ten_days) = Inr constructed \<and>
         GeneratePlan constructed = (Some first, ten_days_bound \<lparr> plan := None \<rparr>) \<and>
         plan ten_days_bound = Some first \<and>
         from_epoch constructed = Epoch from_date' \<and>
         from_epoch ten_days_bound = from_epoch constructed + increment_epoch constructed \<and>
         cur_to_epoch ten_days_bound = cur_to_epoch constructed + increment_epoch constructed \<and>
         symbol ten_days_bound = symbol constructed \<and>
         interval ten_days_bound = interval constructed \<and>
         to_epoch ten_days_bound = to_epoch constructed \<and>
         increment_epoch ten_days_bound = increment_epoch constructed"
    using GeneratePlan_advances [of ten_days_bound undefined ten_days "[]" "[]" ten_days_bound]
      b by blast
  then have "\<exists>constructed first.
      YahooFunctionData_new ''AAPL'' (Epoch 19723) (Epoch 19732) ''1d'' = Inr constructed \<and>
      GeneratePlan constructed = (Some first, ten_days_bound \<lparr> plan := None \<rparr>) \<and>
      plan ten_days_bound = Some first \<and>
      from_epoch ten_days_bound = from_epoch constructed + increment_epoch constructed \<and>
      cur_to_epoch ten_days_bound =
        cur_to_epoch constructed + increment_epoch constructed"
    by (simp add: ten_days_def) blast
  then show ?thesis using b by simp
qed

section \<open>The windows of a request\<close>

text \<open>
  From a bind data with a positive step whose sums stay within 64 bits, the calls end:
  one window for each multiple of the step that fits between \<^verbatim>\<open>cur_to_epoch\<close> and
  \<^verbatim>\<open>to_epoch\<close>, each one step after the other.
\<close>

lemma windows_run:
  assumes "0 < increment_epoch s" and "- (2 ^ 63) \<le> from_epoch s"
    and "from_epoch s \<le> cur_to_epoch s"
    and "to_epoch s + increment_epoch s < 2 ^ 63"
    and "n = nat ((to_epoch s - cur_to_epoch s + increment_epoch s) div increment_epoch s)"
    and "n < calls"
  shows "windows calls s =
           Some (map (\<lambda>k. (from_epoch s + int k * increment_epoch s,
                           cur_to_epoch s + int k * increment_epoch s)) [0..<n])"
  using assms
proof (induction calls arbitrary: s n)
  case 0
  then show ?case by simp
next
  case (Suc calls)
  let ?inc = "increment_epoch s"
  show ?case
  proof (cases "cur_to_epoch s > to_epoch s")
    case True
    then have "to_epoch s - cur_to_epoch s + ?inc < ?inc" by simp
    then have "(to_epoch s - cur_to_epoch s + ?inc) div ?inc \<le> 0"
      using Suc.prems(1)
      by (cases "0 \<le> to_epoch s - cur_to_epoch s + ?inc")
         (simp_all add: div_pos_pos_trivial div_nonpos_pos_le0)
    then have "n = 0" using Suc.prems(5) by simp
    then show ?thesis using True by (simp add: GeneratePlan_None)
  next
    case False
    let ?s' = "s \<lparr> from_epoch := int64 (from_epoch s + ?inc),
                     cur_to_epoch := int64 (cur_to_epoch s + ?inc) \<rparr>"
    have f64: "int64 (from_epoch s + ?inc) = from_epoch s + ?inc"
      using Suc.prems False by (intro int64_id) simp_all
    have c64: "int64 (cur_to_epoch s + ?inc) = cur_to_epoch s + ?inc"
      using Suc.prems False by (intro int64_id) simp_all
    have "?inc \<noteq> 0" using Suc.prems(1) by simp
    then have "(to_epoch s - cur_to_epoch s + ?inc) div ?inc =
          (to_epoch s - cur_to_epoch s) div ?inc + 1"
      by (rule div_add_self2)
    moreover have "0 \<le> (to_epoch s - cur_to_epoch s) div ?inc"
      using False Suc.prems(1) by (simp add: pos_imp_zdiv_nonneg_iff)
    ultimately have n: "n = Suc (nat ((to_epoch s - cur_to_epoch s) div ?inc))"
      using Suc.prems(5) by simp
    define n' where "n' = nat ((to_epoch s - cur_to_epoch s) div ?inc)"
    have "windows calls ?s' =
           Some (map (\<lambda>k. (from_epoch ?s' + int k * increment_epoch ?s',
                           cur_to_epoch ?s' + int k * increment_epoch ?s')) [0..<n'])"
    proof (rule Suc.IH)
      show "n' = nat ((to_epoch ?s' - cur_to_epoch ?s' + increment_epoch ?s') div increment_epoch ?s')"
        by (simp add: c64 n'_def)
      show "n' < calls" using Suc.prems(6) n by (simp add: n'_def)
    qed (use Suc.prems False in \<open>simp_all add: f64 c64\<close>)
    then have "windows calls ?s' =
           Some (map (\<lambda>k. (from_epoch s + int (Suc k) * ?inc,
                           cur_to_epoch s + int (Suc k) * ?inc)) [0..<n'])"
      by (simp add: f64 c64 algebra_simps)
    moreover have "[0..<n] = 0 # map Suc [0..<n']"
      unfolding n n'_def [symmetric] by (simp add: upt_conv_Cons map_Suc_upt del: upt_Suc)
    ultimately show ?thesis
      using False by (simp add: GeneratePlan_Some comp_def del: upt_Suc)
  qed
qed

lemma request_windows_eq:
  assumes i: "i \<in> set valid_interval" and lt: "f < t"
    and lo: "- (2 ^ 61) \<le> f" and hi: "t \<le> 2 ^ 61"
  defines "e \<equiv> int32 ((t - f) div IntervalInEpoch i + 1)"
  defines "inc \<equiv> (if e > 60 then (t - f) div (e div 60 + 1) else t - f)"
  defines "c \<equiv> (if f + inc < t then f + inc else t)"
  defines "n \<equiv> nat ((t - f) div inc)"
  shows "request_windows (Suc n) s f t i =
           Some (map (\<lambda>k. (f + int k * inc, c + int k * inc)) [0..<n])"
    and "0 < inc" and "inc \<le> t - f" and "0 < n"
proof -
  let ?st = "\<lparr> plan = None, symbol = s, from_epoch = f, cur_to_epoch = c,
                to_epoch = t, interval = i, increment_epoch = inc \<rparr>"
  have new: "YahooFunctionData_new s f t i = Inr ?st"
    unfolding c_def inc_def e_def by (rule YahooFunctionData_new_eq(1) [OF i lt lo hi])
  have le: "inc \<le> t - f"
    unfolding inc_def e_def by (rule YahooFunctionData_new_eq(3) [OF i lt lo hi])
  have pos: "0 < inc"
    unfolding inc_def e_def by (rule increment_positive [OF i lt])
  show "0 < inc" "inc \<le> t - f" by (fact pos, fact le)
  have "0 < (t - f) div inc" using pos le by (simp add: pos_imp_zdiv_pos_iff)
  then show "0 < n" by (simp add: n_def)
  have n: "(t - c + inc) div inc = (t - f) div inc"
  proof (cases "f + inc < t")
    case True
    then show ?thesis by (simp add: c_def)
  next
    case False
    then have "inc = t - f" using le by simp
    then show ?thesis using pos by (simp add: c_def)
  qed
  have "windows (Suc n) ?st =
          Some (map (\<lambda>k. (from_epoch ?st + int k * increment_epoch ?st,
                          cur_to_epoch ?st + int k * increment_epoch ?st)) [0..<n])"
  proof (rule windows_run)
    show "n = nat ((to_epoch ?st - cur_to_epoch ?st + increment_epoch ?st) div increment_epoch ?st)"
      using n by (simp add: n_def)
    show "from_epoch ?st \<le> cur_to_epoch ?st" using pos lt by (simp add: c_def)
    show "to_epoch ?st + increment_epoch ?st < 2 ^ 63" using le lo hi by simp
    show "- (2 ^ 63) \<le> from_epoch ?st" using lo by simp
  qed (use pos in simp_all)
  then show "request_windows (Suc n) s f t i =
           Some (map (\<lambda>k. (f + int k * inc, c + int k * inc)) [0..<n])"
    by (simp add: request_windows_def new)
qed

text \<open>
  The count of the windows. The range divided by \<open>m\<close> parts gives the step; the range
  divided by the step gives \<open>m\<close> again as long as \<open>m\<close> does not exceed the step, which
  holds for ranges of up to \<open>2 ^ 28\<close> days.
\<close>

lemma parts_le_step:
  fixes D I :: int
  assumes I: "86400 \<le> I" and E: "60 < D div I + 1" and R: "D \<le> 86400 * 2 ^ 28"
  defines "m \<equiv> (D div I + 1) div 60 + 1"
  shows "m * m \<le> D" and "0 < m"
proof -
  have q60: "60 \<le> D div I" using E by simp
  have Dpos: "0 \<le> D"
  proof (rule ccontr)
    assume "\<not> 0 \<le> D"
    then have "D div I < 0" using I by (simp add: div_neg_pos_less0)
    then show False using q60 by simp
  qed
  have "D = I * (D div I) + D mod I" by simp
  moreover have "0 \<le> D mod I" using I by simp
  ultimately have "I * (D div I) \<le> D" by linarith
  moreover have "I * 60 \<le> I * (D div I)" using q60 I by (intro mult_left_mono) simp_all
  ultimately have big: "5184000 \<le> D" using I by linarith
  define a where "a = D div 5184000"
  have a1: "1 \<le> a" using big unfolding a_def by simp
  have a2: "a \<le> 4473924" using R unfolding a_def by simp
  have "D div I \<le> D div 86400" using Dpos I by (intro zdiv_mono2) simp_all
  then have "(D div I + 1) div 60 \<le> (D div 86400 + 1) div 60" by (intro zdiv_mono1) simp_all
  moreover have "(D div 86400 + 1) div 60 \<le> a + 1" unfolding a_def by simp
  ultimately have m: "m \<le> a + 2" unfolding m_def by simp
  show mpos: "0 < m" using q60 unfolding m_def by simp
  have "m * m \<le> (a + 2) * (a + 2)" using m mpos by (intro mult_mono) simp_all
  also have "\<dots> \<le> a * (a + 8)" using a1 by (simp add: algebra_simps)
  also have "\<dots> \<le> a * 5184000" using a1 a2 by (intro mult_left_mono) simp_all
  also have "\<dots> \<le> D" unfolding a_def by simp
  finally show "m * m \<le> D" .
qed

lemma div_by_quotient:
  fixes D m :: int
  assumes "m * m \<le> D" and "0 < m"
  shows "m \<le> D div m" and "D div (D div m) = m" and "0 \<le> D - m * (D div m)"
    and "D - m * (D div m) < m"
proof -
  have "(m * m) div m \<le> D div m" using assms by (intro zdiv_mono1) simp_all
  then show q: "m \<le> D div m" using assms by simp
  define r where "r = D mod m"
  have r: "0 \<le> r" "r < m" using assms unfolding r_def by simp_all
  have D: "D = r + m * (D div m)" unfolding r_def by simp
  have "(r + m * (D div m)) div (D div m) = m + r div (D div m)"
    using q assms by (intro div_mult_self1) simp
  moreover have "r div (D div m) = 0" using r q by (intro div_pos_pos_trivial) simp_all
  ultimately show "D div (D div m) = m" using D by simp
  show "0 \<le> D - m * (D div m)" "D - m * (D div m) < m"
    using D r by simp_all
qed

lemma short_request:
  assumes i: "i \<in> set valid_interval" and lt: "f < t" and R: "t - f \<le> 86400 * 2 ^ 28"
    and E: "\<not> 60 < expectedSamples f t i"
  shows "(t - f) div stepSize f t i = 1" and "stepSize f t i = t - f"
  using lt E by (simp_all add: stepSize_def)

lemma long_request:
  assumes i: "i \<in> set valid_interval" and lt: "f < t" and R: "t - f \<le> 86400 * 2 ^ 28"
    and E: "60 < expectedSamples f t i"
  defines "m \<equiv> expectedSamples f t i div 60 + 1"
  shows "(t - f) div stepSize f t i = m" and "m \<le> stepSize f t i" and "2 \<le> m"
    and "m * stepSize f t i \<le> t - f" and "t - f - m * stepSize f t i < m"
    and "f + stepSize f t i < t"
proof -
  let ?D = "t - f" and ?I = "IntervalInEpoch i"
  have I: "86400 \<le> ?I" using IntervalInEpoch_valid [OF i] by simp
  have E': "60 < ?D div ?I + 1" using E by (simp add: expectedSamples_def)
  have mm: "m * m \<le> ?D" and mpos: "0 < m"
    using parts_le_step [OF I E' R] by (simp_all add: expectedSamples_def m_def)
  have step: "stepSize f t i = ?D div m" using E by (simp add: stepSize_def m_def)
  note dq = div_by_quotient [OF mm mpos]
  show "?D div stepSize f t i = m" "m \<le> stepSize f t i" using dq(1,2) by (simp_all add: step)
  show m2: "2 \<le> m" using E by (simp add: m_def)
  show tail: "m * stepSize f t i \<le> ?D" "?D - m * stepSize f t i < m"
    using dq(3,4) by (simp_all add: step)
  have spos: "0 < stepSize f t i" using \<open>m \<le> stepSize f t i\<close> mpos by simp
  have "2 * stepSize f t i \<le> m * stepSize f t i" using m2 spos by (intro mult_right_mono) simp_all
  then show "f + stepSize f t i < t" using tail(1) spos by linarith
qed

lemma covers_consecutive:
  assumes "0 < step"
  shows "0 < n \<Longrightarrow> f \<le> x \<Longrightarrow> x \<le> f + int n * step \<Longrightarrow>
    covers (map (\<lambda>k. (f + int k * step, f + (int k + 1) * step)) [0..<n]) x"
proof (induction n)
  case 0
  then show ?case by simp
next
  case (Suc n)
  show ?case
  proof (cases "0 < n \<and> x \<le> f + int n * step")
    case True
    then have "covers (map (\<lambda>k. (f + int k * step, f + (int k + 1) * step)) [0..<n]) x"
      using Suc by simp
    then show ?thesis by (simp add: covers_def)
  next
    case False
    then have "f + int n * step \<le> x" using Suc.prems by (cases "n = 0") auto
    moreover have "x \<le> f + (int n + 1) * step" using Suc.prems by (simp add: algebra_simps)
    ultimately show ?thesis by (simp add: covers_def)
  qed
qed

lemma covers_within:
  assumes "0 < step"
  shows "covers (map (\<lambda>k. (f + int k * step, f + (int k + 1) * step)) [0..<n]) x \<Longrightarrow>
         f \<le> x \<and> x \<le> f + int n * step"
proof (induction n)
  case 0
  then show ?case by (simp add: covers_def)
next
  case (Suc n)
  have a: "0 \<le> int n * step" using assms by simp
  have b: "f + int n * step \<le> f + (int n + 1) * step" using assms by (simp add: algebra_simps)
  from Suc.prems have "covers (map (\<lambda>k. (f + int k * step, f + (int k + 1) * step)) [0..<n]) x
     \<or> (f + int n * step \<le> x \<and> x \<le> f + (int n + 1) * step)"
    by (auto simp add: covers_def)
  then show ?case
  proof
    assume "covers (map (\<lambda>k. (f + int k * step, f + (int k + 1) * step)) [0..<n]) x"
    then have "f \<le> x \<and> x \<le> f + int n * step" by (rule Suc.IH)
    then show ?thesis using b by (simp add: algebra_simps)
  next
    assume h: "f + int n * step \<le> x \<and> x \<le> f + (int n + 1) * step"
    then have "f \<le> x" using a by linarith
    moreover have "x \<le> f + int (Suc n) * step" using h by (simp add: algebra_simps)
    ultimately show ?thesis by simp
  qed
qed

lemma windows_four_hundred_days:
  "request_windows 8 ''AAPL'' (Epoch 19723) (Epoch 20123) ''1d'' =
     Some [(1704067200, 1709004342), (1709004342, 1713941484), (1713941484, 1718878626),
           (1718878626, 1723815768), (1723815768, 1728752910), (1728752910, 1733690052),
           (1733690052, 1738627194)]"
  unfolding request_windows_def new_four_hundred_days
  by (simp add: eval_nat_numeral GeneratePlan_def Let_def int64_def)

text \<open>
  C1 as stated fails on the second scenario of the specification. Four hundred days of
  daily samples from 2024-01-01 are 401 expected samples; the seven windows issued are
  each 4937142 seconds wide, the last one ends at 1738627194, six seconds before
  \<^verbatim>\<open>to_epoch\<close> = 1738627200, and no window covers \<^verbatim>\<open>to_epoch\<close>: the bound of a window
  is never set back to \<^verbatim>\<open>to_epoch\<close> after the constructor.
\<close>

theorem windows_cover_counterexample:
  "expectedSamples (Epoch 19723) (Epoch 20123) ''1d'' = 401 \<and>
   Epoch 20123 = 1738627200 \<and>
   request_windows 8 ''AAPL'' (Epoch 19723) (Epoch 20123) ''1d'' =
     Some [(1704067200, 1709004342), (1709004342, 1713941484), (1713941484, 1718878626),
           (1718878626, 1723815768), (1723815768, 1728752910), (1728752910, 1733690052),
           (1733690052, 1738627194)] \<and>
   \<not> covers [(1704067200, 1709004342), (1709004342, 1713941484), (1713941484, 1718878626),
             (1718878626, 1723815768), (1723815768, 1728752910), (1728752910, 1733690052),
             (1733690052, 1738627194)] (Epoch 20123)"
proof -
  have "Epoch 20123 = 1738627200" by (simp add: Epoch_eq)
  moreover have "\<not> covers [(1704067200, 1709004342), (1709004342, 1713941484),
             (1713941484, 1718878626), (1718878626, 1723815768), (1723815768, 1728752910),
             (1728752910, 1733690052), (1733690052, 1738627194)] (1738627200 :: int)"
    by (simp add: covers_def)
  ultimately show ?thesis
    using samples_four_hundred_days(1) windows_four_hundred_days by simp
qed

text \<open>
  C1 (amended). For every request of a valid interval between two dates, the later at
  most \<open>2 ^ 28\<close> days after the earlier, with more than sixty expected samples: the
  repeated calls issue exactly \<open>N = expectedSamples / 60 + 1\<close> windows and then return
  the null plan; \<open>N\<close> differs from the rounded-up sixtieth of the expected samples by at
  most one; window \<open>k\<close> is \<open>[from + k * stepSize, from + (k + 1) * stepSize]\<close>, so the
  windows are contiguous, all of the same width, and cover exactly the points from
  \<^verbatim>\<open>from_epoch\<close> to \<open>from + N * stepSize\<close>; this end is at or before \<^verbatim>\<open>to_epoch\<close> and
  less than \<open>N\<close> seconds short of it; no window exceeds \<^verbatim>\<open>to_epoch\<close>.
\<close>

theorem windows_of_long_request:
  assumes i: "i \<in> set valid_interval" and lt: "sint fd < sint td"
    and R: "sint td - sint fd \<le> 2 ^ 28"
    and E: "60 < expectedSamples (Epoch fd) (Epoch td) i"
  defines "step \<equiv> stepSize (Epoch fd) (Epoch td) i"
  defines "N \<equiv> nat (expectedSamples (Epoch fd) (Epoch td) i div 60 + 1)"
  defines "ws \<equiv> map (\<lambda>k. (Epoch fd + int k * step, Epoch fd + (int k + 1) * step)) [0..<N]"
  shows "request_windows (Suc N) s (Epoch fd) (Epoch td) i = Some ws \<and>
         0 < step \<and>
         \<bar>int N - (expectedSamples (Epoch fd) (Epoch td) i + 59) div 60\<bar> \<le> 1 \<and>
         (\<forall>w \<in> set ws. snd w \<le> Epoch td) \<and>
         (\<forall>x. covers ws x \<longleftrightarrow> Epoch fd \<le> x \<and> x \<le> Epoch fd + int N * step) \<and>
         Epoch fd + int N * step \<le> Epoch td \<and>
         Epoch td - (Epoch fd + int N * step) < int N"
proof -
  let ?f = "Epoch fd" and ?t = "Epoch td"
  let ?E = "expectedSamples ?f ?t i"
  let ?m = "?E div 60 + 1"
  have ft: "?f < ?t" using lt by (rule Epoch_less)
  have DR: "?t - ?f \<le> 86400 * 2 ^ 28" using R by (simp add: Epoch_eq)
  note lr = long_request [OF i ft DR E, folded step_def]
  have e: "int32 ((?t - ?f) div IntervalInEpoch i + 1) = ?E" using i ft DR by (rule no_narrowing)
  have spos: "0 < step" using lr(2,3) by simp
  have N: "int N = ?m" using lr(3) by (simp add: N_def)
  have inc_eq: "(if 60 < ?E then (?t - ?f) div (?E div 60 + 1) else ?t - ?f) = step"
    by (simp add: step_def stepSize_def)
  have c_eq: "(if ?f + step < ?t then ?f + step else ?t) = ?f + step"
    using lr(6) by simp
  have n_eq: "nat ((?t - ?f) div step) = N" using lr(1) by (simp add: N_def)
  have "request_windows (Suc N) s ?f ?t i =
          Some (map (\<lambda>k. (?f + int k * step, ?f + step + int k * step)) [0..<N])"
    using request_windows_eq(1) [OF i ft Epoch_bounds(1) Epoch_bounds(2), of s]
    unfolding e inc_eq c_eq n_eq .
  moreover have "(\<lambda>k. (?f + int k * step, ?f + step + int k * step)) =
                 (\<lambda>k. (?f + int k * step, ?f + (int k + 1) * step))"
    by (simp add: algebra_simps)
  ultimately have rw: "request_windows (Suc N) s ?f ?t i = Some ws"
    by (simp add: ws_def)
  have ceil: "\<bar>int N - (?E + 59) div 60\<bar> \<le> 1" unfolding N by simp
  have end_le: "?f + int N * step \<le> ?t" using lr(4) by (simp add: N)
  have short: "?t - (?f + int N * step) < int N" using lr(5) by (simp add: N algebra_simps)
  have cov: "\<forall>x. covers ws x \<longleftrightarrow> ?f \<le> x \<and> x \<le> ?f + int N * step"
  proof (intro allI iffI)
    fix x assume "covers ws x"
    then show "?f \<le> x \<and> x \<le> ?f + int N * step"
      unfolding ws_def by (rule covers_within [OF spos])
  next
    fix x assume "?f \<le> x \<and> x \<le> ?f + int N * step"
    moreover have "0 < N" using N lr(3) by simp
    ultimately show "covers ws x"
      unfolding ws_def by (intro covers_consecutive [OF spos]) simp_all
  qed
  have within: "\<forall>w \<in> set ws. snd w \<le> ?t"
  proof
    fix w assume "w \<in> set ws"
    then obtain k where k: "k < N" and w: "w = (?f + int k * step, ?f + (int k + 1) * step)"
      by (auto simp add: ws_def)
    have "(int k + 1) * step \<le> int N * step" using k spos by (intro mult_right_mono) simp_all
    then show "snd w \<le> ?t" using end_le w by simp
  qed
  show ?thesis using rw spos ceil within cov end_le short by blast
qed

theorem windows_of_long_request_witness:
  "''1d'' \<in> set valid_interval \<and> sint (19723 :: 32 word) < sint (20123 :: 32 word) \<and>
   sint (20123 :: 32 word) - sint (19723 :: 32 word) \<le> 2 ^ 28 \<and>
   60 < expectedSamples (Epoch 19723) (Epoch 20123) ''1d'' \<and>
   request_windows (Suc 7) ''AAPL'' (Epoch 19723) (Epoch 20123) ''1d'' =
     Some (map (\<lambda>k. (1704067200 + int k * 4937142, 1704067200 + (int k + 1) * 4937142))
            [0..<7]) \<and>
   1704067200 + 7 * 4937142 \<le> Epoch 20123 \<and>
   Epoch 20123 - (1704067200 + 7 * 4937142) < 7"
proof -
  have h1: "''1d'' \<in> set valid_interval" by (simp add: valid_interval_def)
  have h2: "sint (19723 :: 32 word) < sint (20123 :: 32 word)" by simp
  have h3: "sint (20123 :: 32 word) - sint (19723 :: 32 word) \<le> 2 ^ 28" by simp
  have h4: "60 < expectedSamples (Epoch 19723) (Epoch 20123) ''1d''"
    by (simp add: samples_four_hundred_days)
  note th = windows_of_long_request [OF h1 h2 h3 h4, of "''AAPL''",
      unfolded samples_four_hundred_days]
  show ?thesis
    using h1 h2 h3 h4 th by (simp add: Epoch_eq)
qed

text \<open>
  C5 as stated fails on long ranges, where the windows outnumber the parts the range
  was divided into: the daily samples of the 727000000 days from 1970-01-01 are divided
  into 12116667 parts of 5183999 seconds, and 12116669 windows are issued before the
  null plan.
\<close>

theorem window_count_counterexample:
  "map_option length (request_windows 12116670 ''AAPL'' (Epoch 0) (Epoch 727000000) ''1d'')
     = Some 12116669 \<and>
   windowCount (Epoch 0) (Epoch 727000000) ''1d'' = 12116667"
proof -
  have E0: "Epoch 0 = 0" and E1: "Epoch 727000000 = 62812800000000"
    by (simp_all add: Epoch_eq)
  have I: "IntervalInEpoch ''1d'' = 86400" by (simp add: IntervalInEpoch_def SECS_PER_DAY_def)
  have e: "int32 727000001 = 727000001"
    by (simp add: int32_def)
  have "request_windows (Suc (nat (62812800000000 div 5183999))) ''AAPL'' 0 62812800000000 ''1d'' =
        Some (map (\<lambda>k. (0 + int k * 5183999, 5183999 + int k * 5183999))
               [0..<nat (62812800000000 div 5183999)])"
    using request_windows_eq(1) [of "''1d''" 0 62812800000000 "''AAPL''"]
    by (simp add: valid_interval_def I e)
  then have "map_option length (request_windows 12116670 ''AAPL'' 0 62812800000000 ''1d'')
     = Some 12116669"
    by simp
  moreover have "windowCount 0 62812800000000 ''1d'' = 12116667"
    by (simp add: windowCount_def expectedSamples_def I)
  ultimately show ?thesis by (simp add: E0 E1)
qed

text \<open>
  C5 (amended). For every request of a valid interval between two dates, the later after
  the earlier, the step size computed is strictly positive and the repeated calls reach
  the null plan after exactly \<open>(to_epoch - from_epoch) div increment_epoch\<close> issued windows,
  each starting strictly after the one before; for ranges of up to \<open>2 ^ 28\<close> days this
  number is the computed window count: \<open>expectedSamples / 60 + 1\<close> above sixty samples,
  one otherwise.
\<close>

theorem stream_ends:
  assumes i: "i \<in> set valid_interval" and lt: "sint fd < sint td"
  shows "\<exists>st ws. YahooFunctionData_new s (Epoch fd) (Epoch td) i = Inr st \<and>
           0 < increment_epoch st \<and>
           windows (Suc (length ws)) st = Some ws \<and>
           int (length ws) = (Epoch td - Epoch fd) div increment_epoch st \<and>
           (\<forall>k. Suc k < length ws \<longrightarrow> fst (ws ! k) < fst (ws ! Suc k)) \<and>
           (sint td - sint fd \<le> 2 ^ 28 \<longrightarrow>
              int (length ws) = windowCount (Epoch fd) (Epoch td) i)"
proof -
  let ?f = "Epoch fd" and ?t = "Epoch td"
  define e where "e = int32 ((?t - ?f) div IntervalInEpoch i + 1)"
  define inc where "inc = (if e > 60 then (?t - ?f) div (e div 60 + 1) else ?t - ?f)"
  define c where "c = (if ?f + inc < ?t then ?f + inc else ?t)"
  define n where "n = nat ((?t - ?f) div inc)"
  define ws where "ws = map (\<lambda>k. (?f + int k * inc, c + int k * inc)) [0..<n]"
  let ?st = "\<lparr> plan = None, symbol = s, from_epoch = ?f, cur_to_epoch = c,
                to_epoch = ?t, interval = i, increment_epoch = inc \<rparr>"
  have ft: "?f < ?t" using lt by (rule Epoch_less)
  have new: "YahooFunctionData_new s ?f ?t i = Inr ?st"
    unfolding c_def inc_def e_def
    by (rule YahooFunctionData_new_eq(1) [OF i ft Epoch_bounds(1) Epoch_bounds(2)])
  note rw = request_windows_eq(1) [OF i ft Epoch_bounds(1) Epoch_bounds(2), of s,
      folded e_def, folded inc_def, folded c_def, folded n_def, folded ws_def]
  have pos: "0 < inc"
    unfolding inc_def e_def by (rule increment_positive [OF i ft])
  have len: "length ws = n" by (simp add: ws_def)
  have w: "windows (Suc (length ws)) ?st = Some ws"
    using rw by (simp add: request_windows_def new len)
  have "0 \<le> (?t - ?f) div inc" using pos ft by (simp add: pos_imp_zdiv_nonneg_iff)
  then have cnt: "int (length ws) = (?t - ?f) div inc" by (simp add: len n_def)
  have incr: "\<forall>k. Suc k < length ws \<longrightarrow> fst (ws ! k) < fst (ws ! Suc k)"
    using pos by (simp add: ws_def)
  have small: "sint td - sint fd \<le> 2 ^ 28 \<longrightarrow> int (length ws) = windowCount ?f ?t i"
  proof
    assume "sint td - sint fd \<le> 2 ^ 28"
    then have R: "?t - ?f \<le> 86400 * 2 ^ 28" by (simp add: Epoch_eq)
    have "e = expectedSamples ?f ?t i" unfolding e_def using i ft R by (rule no_narrowing)
    then have "inc = stepSize ?f ?t i" by (simp add: inc_def stepSize_def)
    then show "int (length ws) = windowCount ?f ?t i"
      using long_request(1) [OF i ft R] short_request(1) [OF i ft R]
      by (simp add: cnt windowCount_def)
  qed
  show ?thesis
    using new pos w cnt incr small
    by (intro exI [of _ ?st] exI [of _ ws]) simp
qed

theorem stream_ends_witness:
  "''1d'' \<in> set valid_interval \<and> sint (19723 :: 32 word) < sint (19732 :: 32 word) \<and>
   sint (19732 :: 32 word) - sint (19723 :: 32 word) \<le> 2 ^ 28 \<and>
   (\<exists>ws. windows (Suc (length ws))
            \<lparr> plan = None, symbol = ''AAPL'', from_epoch = 1704067200,
              cur_to_epoch = 1704844800, to_epoch = 1704844800, interval = ''1d'',
              increment_epoch = 777600 \<rparr> = Some ws \<and>
         int (length ws) = 1 \<and>
         int (length ws) = windowCount (Epoch 19723) (Epoch 19732) ''1d'')"
proof -
  have h1: "''1d'' \<in> set valid_interval" by (simp add: valid_interval_def)
  have h2: "sint (19723 :: 32 word) < sint (19732 :: 32 word)" by simp
  have h3: "sint (19732 :: 32 word) - sint (19723 :: 32 word) \<le> 2 ^ 28" by simp
  have d: "Epoch 19732 - Epoch 19723 = 777600" by (simp add: Epoch_eq)
  show ?thesis
    using h1 h2 h3 stream_ends [OF h1 h2, of "''AAPL''"]
    unfolding new_ten_days d
    by auto
qed

section \<open>End of stream\<close>

text \<open>
  C2 as stated fails on the first scenario of the specification. After \<^verbatim>\<open>Bind\<close> on
  the ten days the cursor stands at \<^verbatim>\<open>from_epoch\<close> = \<^verbatim>\<open>to_epoch\<close>, not beyond it, and
  the plan of the first window is stored; yet the next compute-next-window call returns
  the null plan, so the \<^verbatim>\<open>Scan\<close> that fetched the first window's rows stores the null
  plan and the \<^verbatim>\<open>Scan\<close> after it returns without a request.
\<close>

theorem exhausted_counterexample:
  "Bind ten_days [] [] =
     Inr (ten_days_bound, [DATE, DOUBLE, DOUBLE, DOUBLE, DOUBLE, DOUBLE, HUGEINT],
          [''Date'', ''Open'', ''High'', ''Low'', ''Close'', ''Adj Close'', ''Volume'']) \<and>
   plan ten_days_bound \<noteq> None \<and>
   from_epoch ten_days_bound = to_epoch ten_days_bound \<and>
   \<not> to_epoch ten_days_bound < from_epoch ten_days_bound \<and>
   GeneratePlan ten_days_bound = (None, ten_days_bound) \<and>
   Scan (one_chunk [''2024-01-02'']) ten_days_bound [] =
     Inr ([''2024-01-02''], ten_days_bound \<lparr> plan := None \<rparr>) \<and>
   Scan (one_chunk [''2024-01-02'']) (ten_days_bound \<lparr> plan := None \<rparr>) [] =
     Inr ([], ten_days_bound \<lparr> plan := None \<rparr>)"
proof -
  have g: "GeneratePlan ten_days_bound = (None, ten_days_bound)"
    by (rule GeneratePlan_None) (simp add: ten_days_bound_def)
  have s1: "Scan (one_chunk [''2024-01-02'']) ten_days_bound [] =
     Inr ([''2024-01-02''], ten_days_bound \<lparr> plan := None \<rparr>)"
    unfolding Scan_def g by (simp add: one_chunk_def ten_days_bound_def)
  have s2: "Scan (one_chunk [''2024-01-02'']) (ten_days_bound \<lparr> plan := None \<rparr>) [] =
     Inr ([], ten_days_bound \<lparr> plan := None \<rparr>)"
    by (simp add: Scan_def)
  have f: "plan ten_days_bound \<noteq> None" "from_epoch ten_days_bound = to_epoch ten_days_bound"
    by (simp_all add: ten_days_bound_def)
  show ?thesis using Bind_ten_days f g s1 s2 by simp
qed

text \<open>
  C2 (amended). The compute-next-window step returns the null plan, building no
  request, exactly when \<^verbatim>\<open>cur_to_epoch\<close> is beyond \<^verbatim>\<open>to_epoch\<close>; it then leaves the bind
  data as it was, so every later call returns the null plan again. \<^verbatim>\<open>Scan\<close> returns
  without executing anything and without any change, whatever the execution would give,
  exactly when the stored plan is null.
\<close>

theorem end_of_stream_iff:
  "(fst (GeneratePlan data) = None \<longleftrightarrow> to_epoch data < cur_to_epoch data) \<and>
   (to_epoch data < cur_to_epoch data \<longrightarrow>
      GeneratePlan data = (None, data) \<and> windows (Suc calls) data = Some []) \<and>
   (plan data = None \<longleftrightarrow>
      (\<forall>Execute_Fetch :: ReadCSVRelation \<Rightarrow> error + 'chunk option. \<forall>output.
         Scan Execute_Fetch data output = Inr (output, data)))"
proof -
  have a: "fst (GeneratePlan data) = None \<longleftrightarrow> to_epoch data < cur_to_epoch data"
    by (simp add: GeneratePlan_def Let_def)
  have b: "to_epoch data < cur_to_epoch data \<longrightarrow>
      GeneratePlan data = (None, data) \<and> windows (Suc calls) data = Some []"
    by (simp add: GeneratePlan_None)
  have c: "plan data = None \<longleftrightarrow>
      (\<forall>Execute_Fetch :: ReadCSVRelation \<Rightarrow> error + 'chunk option. \<forall>output.
         Scan Execute_Fetch data output = Inr (output, data))"
  proof
    assume "plan data = None"
    then show "\<forall>Execute_Fetch :: ReadCSVRelation \<Rightarrow> error + 'chunk option. \<forall>output.
         Scan Execute_Fetch data output = Inr (output, data)"
      by (simp add: Scan_def)
  next
    assume all: "\<forall>Execute_Fetch :: ReadCSVRelation \<Rightarrow> error + 'chunk option. \<forall>output.
         Scan Execute_Fetch data output = Inr (output, data)"
    show "plan data = None"
    proof (rule ccontr)
      assume "plan data \<noteq> None"
      then obtain p where "plan data = Some p" by auto
      then have "Scan (\<lambda>p. Inl (ExecutionError [])) data (undefined :: 'chunk)
                   = (Inl (ExecutionError []) :: error + 'chunk \<times> YahooFunctionData)"
        by (simp add: Scan_def)
      then show False using all by simp
    qed
  qed
  show ?thesis using a b c by blast
qed

theorem end_of_stream_iff_witness:
  "to_epoch ten_days_bound < cur_to_epoch ten_days_bound \<and>
   fst (GeneratePlan ten_days_bound) = None \<and>
   GeneratePlan ten_days_bound = (None, ten_days_bound) \<and>
   windows (Suc 0) ten_days_bound = Some [] \<and>
   plan (ten_days_bound \<lparr> plan := None \<rparr>) = None \<and>
   Scan empty_result (ten_days_bound \<lparr> plan := None \<rparr>) [] =
     Inr ([], ten_days_bound \<lparr> plan := None \<rparr>)"
proof -
  have h: "to_epoch ten_days_bound < cur_to_epoch ten_days_bound"
    by (simp add: ten_days_bound_def)
  have n: "plan (ten_days_bound \<lparr> plan := None \<rparr>) = None" by simp
  show ?thesis
    using h n end_of_stream_iff [of ten_days_bound 0, where ?'chunk = "string list"]
      end_of_stream_iff [of "ten_days_bound \<lparr> plan := None \<rparr>" 0,
        where ?'chunk = "string list"]
    by blast
qed

text \<open>
  C3 as stated fails. After \<^verbatim>\<open>Bind\<close> on the four hundred days, with six more windows
  to come, a fetch that returns no chunk for the first window makes \<^verbatim>\<open>Scan\<close> return
  with the output untouched and the bind data unchanged: the stored plan is still the
  first window's and the cursor has not moved.
\<close>

theorem empty_window_counterexample:
  "Bind four_hundred_days [] [] =
     Inr (four_hundred_days_bound, [DATE, DOUBLE, DOUBLE, DOUBLE, DOUBLE, DOUBLE, HUGEINT],
          [''Date'', ''Open'', ''High'', ''Low'', ''Close'', ''Adj Close'', ''Volume'']) \<and>
   plan four_hundred_days_bound \<noteq> None \<and>
   cur_to_epoch four_hundred_days_bound \<le> to_epoch four_hundred_days_bound \<and>
   Scan empty_result four_hundred_days_bound [] = Inr ([], four_hundred_days_bound)"
proof -
  have s: "Scan empty_result four_hundred_days_bound [] = Inr ([], four_hundred_days_bound)"
    by (simp add: Scan_def empty_result_def four_hundred_days_bound_def)
  have f: "plan four_hundred_days_bound \<noteq> None"
    "cur_to_epoch four_hundred_days_bound \<le> to_epoch four_hundred_days_bound"
    by (simp_all add: four_hundred_days_bound_def)
  show ?thesis using Bind_four_hundred_days f s by simp
qed

text \<open>
  C3 (amended). With a plan stored, a fetch that returns no chunk makes \<^verbatim>\<open>Scan\<close> return
  with the output untouched and the bind data unchanged, the stored plan included: the
  cursor does not advance past the window. \<^verbatim>\<open>Scan\<close> calls the compute-next-window step,
  and stores what it returns, only after a fetch that returned a chunk; a failed
  execution is passed on.
\<close>

theorem scan_empty_fetch:
  assumes "plan data = Some p"
  shows "(Execute_Fetch p = Inr None \<longrightarrow>
            Scan Execute_Fetch data output = Inr (output, data)) \<and>
         (Execute_Fetch p = Inr (Some result_chunk) \<longrightarrow>
            Scan Execute_Fetch data output =
              Inr (result_chunk,
                   (snd (GeneratePlan data)) \<lparr> plan := fst (GeneratePlan data) \<rparr>)) \<and>
         (Execute_Fetch p = Inl e \<longrightarrow> Scan Execute_Fetch data output = Inl e)"
  using assms by (simp add: Scan_def split: prod.split)

theorem scan_empty_fetch_witness:
  "(\<exists>p. plan four_hundred_days_bound = Some p \<and> empty_result p = Inr None \<and>
        one_chunk [''2024-01-02''] p = Inr (Some [''2024-01-02''])) \<and>
   Scan empty_result four_hundred_days_bound [] = Inr ([], four_hundred_days_bound) \<and>
   Scan (one_chunk [''2024-01-02'']) four_hundred_days_bound [] =
     Inr ([''2024-01-02''],
          (snd (GeneratePlan four_hundred_days_bound))
            \<lparr> plan := fst (GeneratePlan four_hundred_days_bound) \<rparr>) \<and>
   from_epoch (snd (GeneratePlan four_hundred_days_bound)) = 1713941484"
proof -
  obtain p where p: "plan four_hundred_days_bound = Some p"
    by (simp add: four_hundred_days_bound_def)
  have e: "empty_result p = Inr None" by (simp add: empty_result_def)
  have c: "one_chunk [''2024-01-02''] p = Inr (Some [''2024-01-02''])"
    by (simp add: one_chunk_def)
  have a: "from_epoch (snd (GeneratePlan four_hundred_days_bound)) = 1713941484"
    by (simp add: GeneratePlan_def Let_def four_hundred_days_bound_def int64_def)
  show ?thesis
    using p e c a
      scan_empty_fetch [OF p, of empty_result "[]" "[''2024-01-02'']" undefined]
      scan_empty_fetch [OF p, of "one_chunk [''2024-01-02'']" "[]" "[''2024-01-02'']" undefined]
    by simp
qed

section \<open>Validation in Bind\<close>


text \<open>
  The checks of the periods come first: a period argument that is neither a date nor a
  varchar fails with the error of the type, and a period whose cast to a date throws
  fails with the exception of the cast, whatever the interval is.
\<close>

lemma Bind_period_failures:
  "((from_type input \<noteq> VARCHAR \<and> from_type input \<noteq> DATE) \<or>
    (to_type input \<noteq> VARCHAR \<and> to_type input \<noteq> DATE) \<longrightarrow>
      Bind input return_types names =
        Inl (InvalidInputException ''Start Period must be a Date or a Date-VARCHAR '')) \<and>
   ((from_type input = VARCHAR \<or> from_type input = DATE) \<and>
    (to_type input = VARCHAR \<or> to_type input = DATE) \<longrightarrow>
      (from_date input = Inl e \<longrightarrow> Bind input return_types names = Inl e) \<and>
      (from_date input = Inr fromDate \<and> to_date input = Inl e \<longrightarrow>
         Bind input return_types names = Inl e))"
  by (auto simp add: Bind_def)




end
